theory Spec2Isabelle
  imports Complex_Main "HOL-Library.Log_Nat"
begin

section \<open>Python values\<close>

text \<open>
  The attributes of the entity and the fields of a decoded payload are dynamically typed,
  so they are values of one datatype of Python objects: what \<^verbatim>\<open>json.loads\<close> can
  return. A float is a double: the rational it denotes, or one of the three special
  values that \<^verbatim>\<open>json.loads\<close> accepts (\<^verbatim>\<open>Infinity\<close>, \<^verbatim>\<open>-Infinity\<close>, \<^verbatim>\<open>NaN\<close>);
  the two zeros are one value. A dict is an association list read with
  \<^const>\<open>map_of\<close>. A string is a \<^typ>\<open>string\<close> of ASCII characters.
\<close>

datatype pyfloat = Finite rat | PosInf | NegInf | NaN

datatype pyval =
    PNone
  | PBool bool
  | PInt int
  | PFloat pyfloat
  | PStr string
  | PList "pyval list"
  | PDict "(string \<times> pyval) list"

datatype error =
    JSONDecodeError
  | KeyError string
  | TypeError
  | AttributeError
  | OverflowError
  | ValueError
  | HostError

text \<open>Truth value of an object, as \<^verbatim>\<open>if x:\<close> and \<^verbatim>\<open>x or y\<close> test it.\<close>

fun truthy :: "pyval \<Rightarrow> bool" where
  "truthy PNone = False"
| "truthy (PBool b) = b"
| "truthy (PInt n) = (n \<noteq> 0)"
| "truthy (PFloat (Finite x)) = (x \<noteq> 0)"
| "truthy (PFloat _) = True"
| "truthy (PStr s) = (s \<noteq> [])"
| "truthy (PList xs) = (xs \<noteq> [])"
| "truthy (PDict kvs) = (kvs \<noteq> [])"

definition py_or :: "pyval \<Rightarrow> pyval \<Rightarrow> pyval" where
  "py_or a b = (if truthy a then a else b)"

text \<open>
  \<^verbatim>\<open>payload[key]\<close> with a string key: the value of a dict, \<^verbatim>\<open>KeyError\<close> when the
  key is missing, \<^verbatim>\<open>TypeError\<close> on any other object (a list or a string wants an
  integer index, the others are not subscriptable).
\<close>

fun getitem :: "pyval \<Rightarrow> string \<Rightarrow> error + pyval" where
  "getitem (PDict kvs) k = (case map_of kvs k of None \<Rightarrow> Inl (KeyError k) | Some v \<Rightarrow> Inr v)"
| "getitem _ k = Inl TypeError"

text \<open>\<^verbatim>\<open>d.get(key)\<close>: \<^verbatim>\<open>None\<close> for a missing key; only a dict has the method.\<close>

fun py_get :: "pyval \<Rightarrow> string \<Rightarrow> error + pyval" where
  "py_get (PDict kvs) k = (case map_of kvs k of None \<Rightarrow> Inr PNone | Some v \<Rightarrow> Inr v)"
| "py_get _ k = Inl AttributeError"

definition dict_get :: "(string \<times> pyval) list \<Rightarrow> string \<Rightarrow> pyval" where
  "dict_get kvs k = (case map_of kvs k of None \<Rightarrow> PNone | Some v \<Rightarrow> v)"

text \<open>\<^verbatim>\<open>str.lower\<close> on ASCII text, and \<^verbatim>\<open>x.lower()\<close> on any object.\<close>

definition lower_char :: "char \<Rightarrow> char" where
  "lower_char c =
     (case map_of (zip ''ABCDEFGHIJKLMNOPQRSTUVWXYZ'' ''abcdefghijklmnopqrstuvwxyz'') c of
        None \<Rightarrow> c
      | Some l \<Rightarrow> l)"

definition lower :: "string \<Rightarrow> string" where
  "lower s = map lower_char s"

fun py_lower :: "pyval \<Rightarrow> error + string" where
  "py_lower (PStr s) = Inr (lower s)"
| "py_lower _ = Inl AttributeError"

definition startswith :: "string \<Rightarrow> string \<Rightarrow> bool" where
  "startswith s p = (take (length p) s = p)"

text \<open>\<^verbatim>\<open>round(x)\<close> of a finite float: to the nearest integer, a tie to the even one.\<close>

definition py_round :: "rat \<Rightarrow> int" where
  "py_round x =
     (let f = \<lfloor>x\<rfloor>; r = x - of_int f
      in if r < 1 / 2 then f else if 1 / 2 < r then f + 1 else if even f then f else f + 1)"

text \<open>
  The double nearest to a rational, a tie to the even significand: what a float
  multiplication or division and the conversion of an integer return for the exact
  result \<open>x\<close>. A double has 53 significant bits and a unit in the last place of at
  least \<open>pow2 (- 1074)\<close>; a result that rounds to \<open>pow2 1024\<close> or beyond is an
  infinity. For \<open>x\<close> other than 0, \<open>exponent x\<close> is the \<open>e\<close> with
  \<open>pow2 e \<le> \<bar>x\<bar>\<close> and \<open>\<bar>x\<bar> < pow2 (e + 1)\<close>.
\<close>

definition pow2 :: "int \<Rightarrow> rat" where
  "pow2 k = (if 0 \<le> k then 2 ^ nat k else 1 / 2 ^ nat (- k))"

definition exponent :: "rat \<Rightarrow> int" where
  "exponent x =
     (let (p, q) = quotient_of \<bar>x\<bar>; k = bitlen p - bitlen q
      in if pow2 k \<le> \<bar>x\<bar> then k else k - 1)"

definition to_double :: "rat \<Rightarrow> pyfloat" where
  "to_double x =
     (if x = 0 then Finite 0
      else
        let e = max (exponent x) (- 1022);
            ulp = pow2 (e - 52);
            r = of_int (py_round (x / ulp)) * ulp
        in if 1024 \<le> exponent r then (if 0 < x then PosInf else NegInf) else Finite r)"

section \<open>The entity\<close>

text \<open>
  \<^verbatim>\<open>MediaPlayerState\<close> is the host's string enumeration; a member compares equal to
  its value, which is what the entity stores in \<^verbatim>\<open>_state\<close>.
\<close>

datatype MediaPlayerState = OFF | ON | IDLE | PLAYING | PAUSED | STANDBY | BUFFERING

fun state_value :: "MediaPlayerState \<Rightarrow> string" where
  "state_value OFF = ''off''"
| "state_value ON = ''on''"
| "state_value IDLE = ''idle''"
| "state_value PLAYING = ''playing''"
| "state_value PAUSED = ''paused''"
| "state_value STANDBY = ''standby''"
| "state_value BUFFERING = ''buffering''"

type_synonym datetime = rat

text \<open>
  The attributes of \<^verbatim>\<open>HassAgentMediaPlayerDevice\<close> that the state handler, the
  properties and the commands read or write; a field \<open>self_x\<close> is the attribute
  \<^verbatim>\<open>self._x\<close>. The media attributes are inherited from the host's entity class, where
  they start as \<^verbatim>\<open>None\<close>. The device info, the subscription table and the thumbnail
  handler, which assigns only the image URL, are left out.
\<close>

record device =
  self_entry_id :: string
  self_name :: string
  self_command_topic :: string
  self_attr_unique_id :: string
  self_available :: bool
  self_muted :: pyval
  self_volume_level :: pyval
  self_state :: "string option"
  self_media_id :: string
  self_last_updated :: rat
  self_attr_media_title :: pyval
  self_attr_media_artist :: pyval
  self_attr_media_album_name :: pyval
  self_attr_media_album_artist :: pyval
  self_attr_media_duration :: pyval
  self_attr_media_position :: pyval
  self_attr_media_position_updated_at :: "datetime option"
  self_attr_media_image_url :: pyval

text \<open>\<^verbatim>\<open>__init__(self, unique_id, entry_id, device)\<close>, with the name of \<^verbatim>\<open>device\<close>.\<close>

definition init :: "string \<Rightarrow> string \<Rightarrow> string \<Rightarrow> device" where
  "init unique_id entry_id device_name =
     \<lparr> self_entry_id = entry_id,
       self_name = device_name,
       self_command_topic = ''hass.agent/media_player/'' @ device_name @ ''/cmd'',
       self_attr_unique_id = ''media_player_'' @ unique_id,
       self_available = False,
       self_muted = PBool False,
       self_volume_level = PInt 0,
       self_state = Some '''',
       self_media_id = '''',
       self_last_updated = 0,
       self_attr_media_title = PNone,
       self_attr_media_artist = PNone,
       self_attr_media_album_name = PNone,
       self_attr_media_album_artist = PNone,
       self_attr_media_duration = PNone,
       self_attr_media_position = PNone,
       self_attr_media_position_updated_at = None,
       self_attr_media_image_url = PNone \<rparr>"

text \<open>
  What a method leaves behind: the entity as the call left it, and the calls it made to
  the host, oldest first (the state write \<^verbatim>\<open>async_write_ha_state\<close> and the MQTT
  publish, with the topic and the payload object given to \<^verbatim>\<open>json.dumps\<close>). A method
  that raises leaves the assignments it had made. Logging is not recorded.
\<close>

datatype event = WriteHaState | Publish string pyval

datatype result = Returned device "event list" | Raised error device "event list"

fun device_of :: "result \<Rightarrow> device" where
  "device_of (Returned d evs) = d"
| "device_of (Raised e d evs) = d"

fun events_of :: "result \<Rightarrow> event list" where
  "events_of (Returned d evs) = evs"
| "events_of (Raised e d evs) = evs"

fun returned :: "result \<Rightarrow> bool" where
  "returned (Returned d evs) = True"
| "returned (Raised e d evs) = False"

text \<open>
  An expression that may raise, followed by the rest of the method: the exception leaves
  the method at once, with the entity as it is at that point.
\<close>

fun attempt :: "error + 'a \<Rightarrow> device \<Rightarrow> ('a \<Rightarrow> result) \<Rightarrow> result" where
  "attempt (Inl e) self k = Raised e self []"
| "attempt (Inr v) self k = k v"

section \<open>The state handler\<close>

text \<open>
  \<^verbatim>\<open>updated(self, message)\<close>. Its arguments are the two clock readings it takes
  (\<^verbatim>\<open>util.dt.utcnow()\<close> and \<^verbatim>\<open>time.time()\<close>) and the outcome of
  \<^verbatim>\<open>json.loads(message.payload)\<close>: the decoded object, or the decoder's exception.
  The three helpers are the blocks of the method, in the order of the source: the track
  fields under \<^verbatim>\<open>if payload["title"]\<close>, the position fields, and the last two lines.
\<close>

definition updated_finish :: "rat \<Rightarrow> device \<Rightarrow> result" where
  "updated_finish now self = Returned (self\<lparr>self_last_updated := now\<rparr>) [WriteHaState]"

definition updated_position :: "datetime \<Rightarrow> rat \<Rightarrow> pyval \<Rightarrow> device \<Rightarrow> result" where
  "updated_position utcnow now payload self =
     attempt (getitem payload ''duration'') self (\<lambda>duration.
     let self = self\<lparr>self_attr_media_duration := duration\<rparr> in
     attempt (getitem payload ''currentposition'') self (\<lambda>position.
     let self = self\<lparr>self_attr_media_position := position\<rparr>;
         self = self\<lparr>self_attr_media_position_updated_at := Some utcnow\<rparr>
     in updated_finish now self))"

definition updated_track :: "datetime \<Rightarrow> rat \<Rightarrow> pyval \<Rightarrow> device \<Rightarrow> result" where
  "updated_track utcnow now payload self =
     attempt (getitem payload ''title'') self (\<lambda>t.
     if truthy t then
       attempt (getitem payload ''title'') self (\<lambda>title.
       let self = self\<lparr>self_attr_media_title := title\<rparr> in
       attempt (getitem payload ''artist'') self (\<lambda>artist.
       let self = self\<lparr>self_attr_media_artist := artist\<rparr> in
       attempt (getitem payload ''albumtitle'') self (\<lambda>albumtitle.
       let self = self\<lparr>self_attr_media_album_name := albumtitle\<rparr> in
       attempt (getitem payload ''albumartist'') self (\<lambda>albumartist.
       let self = self\<lparr>self_attr_media_album_artist := albumartist\<rparr>
       in updated_position utcnow now payload self))))
     else updated_position utcnow now payload self)"

definition updated :: "datetime \<Rightarrow> rat \<Rightarrow> error + pyval \<Rightarrow> device \<Rightarrow> result" where
  "updated utcnow now loads self =
     attempt loads self (\<lambda>payload.
     attempt (getitem payload ''state'') self (\<lambda>st.
     attempt (py_lower st) self (\<lambda>s.
     let self = self\<lparr>self_state := Some s\<rparr> in
     attempt (getitem payload ''volume'') self (\<lambda>volume.
     let self = self\<lparr>self_volume_level := volume\<rparr> in
     attempt (getitem payload ''muted'') self (\<lambda>muted.
     let self = self\<lparr>self_muted := muted\<rparr>;
         self = self\<lparr>self_available := True\<rparr>
     in if self_state self \<noteq> Some ''off''
        then updated_track utcnow now payload self
        else updated_finish now self)))))"

section \<open>The properties\<close>

definition state :: "device \<Rightarrow> MediaPlayerState" where
  "state self =
     (if self_state self = None then OFF
      else if self_state self = Some ''idle'' then IDLE
      else if self_state self = Some ''playing'' then PLAYING
      else if self_state self = Some ''paused'' then PAUSED
      else if self_state self = Some ''standby'' then STANDBY
      else if self_state self = Some ''buffering'' then BUFFERING
      else IDLE)"

text \<open>
  \<^verbatim>\<open>available\<close>, read when \<^verbatim>\<open>time.time()\<close> is \<open>now\<close>. The two times are the
  rationals that the floats denote, and the subtraction is exact.
\<close>

definition available :: "rat \<Rightarrow> device \<Rightarrow> bool" where
  "available now self = (let diff = py_round (now - self_last_updated self) in diff < 5)"

text \<open>
  \<^verbatim>\<open>self._volume_level / 100.0\<close>: an integer (or a boolean, which is one) is converted
  to the nearest double first, which fails when that is an infinity; a float is divided,
  and the quotient is the double nearest to the exact one; nothing else can be divided
  by a float. \<open>float_div\<close> and \<open>float_mul\<close> are the division and the multiplication of
  a float by a positive finite double.
\<close>

definition int_to_float :: "int \<Rightarrow> error + rat" where
  "int_to_float n = (case to_double (of_int n) of Finite x \<Rightarrow> Inr x | _ \<Rightarrow> Inl OverflowError)"

fun float_div :: "pyfloat \<Rightarrow> rat \<Rightarrow> pyfloat" where
  "float_div (Finite x) y = to_double (x / y)"
| "float_div PosInf y = PosInf"
| "float_div NegInf y = NegInf"
| "float_div NaN y = NaN"

fun float_mul :: "pyfloat \<Rightarrow> rat \<Rightarrow> pyfloat" where
  "float_mul (Finite x) y = to_double (x * y)"
| "float_mul PosInf y = PosInf"
| "float_mul NegInf y = NegInf"
| "float_mul NaN y = NaN"

definition volume_level :: "device \<Rightarrow> error + pyfloat" where
  "volume_level self =
     (case self_volume_level self of
        PInt n \<Rightarrow>
          (case int_to_float n of Inl e \<Rightarrow> Inl e | Inr x \<Rightarrow> Inr (float_div (Finite x) 100))
      | PBool b \<Rightarrow> Inr (float_div (Finite (if b then 1 else 0)) 100)
      | PFloat x \<Rightarrow> Inr (float_div x 100)
      | _ \<Rightarrow> Inl TypeError)"

definition is_volume_muted :: "device \<Rightarrow> pyval" where
  "is_volume_muted self = self_muted self"

definition media_content_id :: "device \<Rightarrow> string" where
  "media_content_id self = self_media_id self"

section \<open>The commands\<close>

text \<open>
  \<^verbatim>\<open>_send_command(self, command, data=None, info=None)\<close>: the one publish it makes,
  with the payload object before \<^verbatim>\<open>json.dumps\<close>. The publish is taken to succeed: a
  failure of the transport is not modelled.
\<close>

definition send_command :: "device \<Rightarrow> string \<Rightarrow> pyval \<Rightarrow> pyval \<Rightarrow> event" where
  "send_command self command data info =
     Publish (self_command_topic self)
       (PDict [(''command'', PStr command), (''data'', data), (''info'', info)])"

definition async_turn_off :: "device \<Rightarrow> result" where
  "async_turn_off self =
     (let self = self\<lparr>self_state := Some (state_value IDLE)\<rparr>
      in Returned self [send_command self ''pause'' PNone PNone])"

definition async_media_seek :: "datetime \<Rightarrow> pyval \<Rightarrow> device \<Rightarrow> result" where
  "async_media_seek utcnow position self =
     (let self = self\<lparr>self_attr_media_position := position\<rparr>;
          self = self\<lparr>self_attr_media_position_updated_at := Some utcnow\<rparr>
      in Returned self [send_command self ''seek'' position PNone])"

text \<open>
  \<^verbatim>\<open>round(volume * 100)\<close>: the product is a float, rounded to a double or an infinity,
  and \<^verbatim>\<open>round\<close> has no integer for an infinity or a NaN.
\<close>

definition async_set_volume_level :: "pyfloat \<Rightarrow> device \<Rightarrow> result" where
  "async_set_volume_level volume self =
     (case float_mul volume 100 of
        Finite p \<Rightarrow> Returned self [send_command self ''setvolume'' (PInt (py_round p)) PNone]
      | NaN \<Rightarrow> Raised ValueError self []
      | _ \<Rightarrow> Raised OverflowError self [])"

definition async_volume_up :: "device \<Rightarrow> result" where
  "async_volume_up self = Returned self [send_command self ''volumeup'' PNone PNone]"

definition async_volume_down :: "device \<Rightarrow> result" where
  "async_volume_down self = Returned self [send_command self ''volumedown'' PNone PNone]"

definition async_mute_volume :: "pyval \<Rightarrow> device \<Rightarrow> result" where
  "async_mute_volume mute self = Returned self [send_command self ''mute'' PNone PNone]"

definition async_media_play :: "device \<Rightarrow> result" where
  "async_media_play self =
     (let self = self\<lparr>self_state := Some (state_value PLAYING)\<rparr>
      in Returned self [send_command self ''play'' PNone PNone])"

definition async_media_pause :: "device \<Rightarrow> result" where
  "async_media_pause self =
     (let self = self\<lparr>self_state := Some (state_value PAUSED)\<rparr>
      in Returned self [send_command self ''pause'' PNone PNone])"

definition async_media_stop :: "device \<Rightarrow> result" where
  "async_media_stop self =
     (let self = self\<lparr>self_state := Some (state_value IDLE)\<rparr>
      in Returned self [send_command self ''pause'' PNone PNone])"

definition async_media_next_track :: "device \<Rightarrow> result" where
  "async_media_next_track self = Returned self [send_command self ''next'' PNone PNone]"

definition async_media_previous_track :: "device \<Rightarrow> result" where
  "async_media_previous_track self =
     Returned self [send_command self ''previous'' PNone PNone]"

text \<open>
  The host's functions that \<^verbatim>\<open>async_play_media\<close> calls:
  \<^verbatim>\<open>media_source.is_media_source_id\<close>, and two that may raise,
  \<^verbatim>\<open>media_source.async_resolve_media\<close> (the result is the \<^verbatim>\<open>url\<close> of the resolved
  media) and \<^verbatim>\<open>async_process_play_media_url\<close>. \<^verbatim>\<open>ATTR_MEDIA_EXTRA\<close> is the host's
  constant.
\<close>

record host =
  is_media_source_id :: "string \<Rightarrow> bool"
  async_resolve_media :: "string \<Rightarrow> error + string"
  async_process_play_media_url :: "string \<Rightarrow> error + string"

definition ATTR_MEDIA_EXTRA :: string where
  "ATTR_MEDIA_EXTRA = ''extra''"

text \<open>
  The conditional expression assigned to \<^verbatim>\<open>_attr_media_image_url\<close>: the condition
  holds for a non-empty list whose first element is a dict with a truthy \<^verbatim>\<open>url\<close>; a
  first element without a \<^verbatim>\<open>get\<close> method raises.
\<close>

definition image_url :: "pyval \<Rightarrow> (string \<times> pyval) list \<Rightarrow> error + pyval" where
  "image_url images metadata =
     (case images of
        PList (x # xs) \<Rightarrow>
          (case py_get x ''url'' of
             Inl e \<Rightarrow> Inl e
           | Inr u \<Rightarrow> if truthy u then py_get x ''url'' else Inr (dict_get metadata ''imageUrl''))
      | _ \<Rightarrow> Inr (dict_get metadata ''imageUrl''))"

definition async_play_media ::
  "host \<Rightarrow> string \<Rightarrow> string \<Rightarrow> (string \<times> pyval) list \<Rightarrow> device \<Rightarrow> result" where
  "async_play_media h media_type media_id kwargs self =
     (if \<not> startswith media_type ''music'' \<and> \<not> startswith media_type ''audio/''
         \<and> \<not> startswith media_type ''provider''
      then Returned self []
      else
        attempt (if is_media_source_id h media_id then async_resolve_media h media_id
                 else Inr media_id) self (\<lambda>media_id.
        attempt (async_process_play_media_url h media_id) self (\<lambda>url.
        let self = self\<lparr>self_media_id := url\<rparr>;
            extra = py_or (dict_get kwargs ATTR_MEDIA_EXTRA) (PDict [])
        in
        attempt (py_get extra ''metadata'') self (\<lambda>m.
        case py_or m (PDict []) of
          PDict metadata \<Rightarrow>
            (let images = py_or (dict_get metadata ''images'') (PDict []);
                 self = self\<lparr>self_attr_media_title :=
                          py_or (dict_get metadata ''title'') (PStr ''Home Assistant'')\<rparr>;
                 self = self\<lparr>self_attr_media_artist := dict_get metadata ''artist''\<rparr>;
                 self = self\<lparr>self_attr_media_album_name :=
                          py_or (dict_get metadata ''album_name'')
                            (dict_get metadata ''albumtitle'')\<rparr>;
                 self = self\<lparr>self_attr_media_album_artist :=
                          py_or (dict_get metadata ''album_artist'')
                            (dict_get metadata ''albumartist'')\<rparr>
             in
             attempt (image_url images metadata) self (\<lambda>image.
             let self = self\<lparr>self_attr_media_image_url := image\<rparr>;
                 self = self\<lparr>self_available := True\<rparr>;
                 self = self\<lparr>self_state := Some (state_value PLAYING)\<rparr>;
                 info = PDict [(''title'', self_attr_media_title self),
                               (''artist'', self_attr_media_artist self),
                               (''albumtitle'', self_attr_media_album_name self),
                               (''albumartist'', self_attr_media_album_artist self),
                               (''image_url'', self_attr_media_image_url self)]
             in Returned self
                  [send_command self ''playmedia'' (PStr (self_media_id self)) info]))
        | _ \<Rightarrow> Raised AttributeError self []))))"

section \<open>Runs of the entity\<close>

text \<open>
  The host calls the state handler for each message on the state topic and one of the
  command methods for each service call. A step is one such call, with the clock
  readings it takes.
\<close>

datatype call =
    Updated datetime rat "error + pyval"
  | TurnOff
  | MediaSeek datetime pyval
  | SetVolumeLevel pyfloat
  | VolumeUp
  | VolumeDown
  | MuteVolume pyval
  | MediaPlay
  | MediaPause
  | MediaStop
  | MediaNextTrack
  | MediaPreviousTrack
  | PlayMedia string string "(string \<times> pyval) list"

fun step :: "host \<Rightarrow> call \<Rightarrow> device \<Rightarrow> result" where
  "step h (Updated utcnow now loads) self = updated utcnow now loads self"
| "step h TurnOff self = async_turn_off self"
| "step h (MediaSeek utcnow position) self = async_media_seek utcnow position self"
| "step h (SetVolumeLevel volume) self = async_set_volume_level volume self"
| "step h VolumeUp self = async_volume_up self"
| "step h VolumeDown self = async_volume_down self"
| "step h (MuteVolume mute) self = async_mute_volume mute self"
| "step h MediaPlay self = async_media_play self"
| "step h MediaPause self = async_media_pause self"
| "step h MediaStop self = async_media_stop self"
| "step h MediaNextTrack self = async_media_next_track self"
| "step h MediaPreviousTrack self = async_media_previous_track self"
| "step h (PlayMedia media_type media_id kwargs) self =
     async_play_media h media_type media_id kwargs self"

text \<open>The entity after a sequence of calls; a call that raises keeps what it assigned.\<close>

fun run :: "host \<Rightarrow> call list \<Rightarrow> device \<Rightarrow> device" where
  "run h [] self = self"
| "run h (c # cs) self = run h cs (device_of (step h c self))"

section \<open>Notions of the statements\<close>

text \<open>A decoded payload has a field when it is an object with that key.\<close>

definition has_field :: "pyval \<Rightarrow> string \<Rightarrow> bool" where
  "has_field p k = (case p of PDict kvs \<Rightarrow> map_of kvs k \<noteq> None | _ \<Rightarrow> False)"

text \<open>
  A malformed state message: the payload is not JSON, or the decoded payload lacks one
  of the fields \<^verbatim>\<open>state\<close>, \<^verbatim>\<open>volume\<close>, \<^verbatim>\<open>muted\<close>.
\<close>

definition malformed :: "error + pyval \<Rightarrow> bool" where
  "malformed loads =
     (case loads of
        Inl e \<Rightarrow> True
      | Inr p \<Rightarrow> \<not> (has_field p ''state'' \<and> has_field p ''volume'' \<and> has_field p ''muted''))"

text \<open>The number of state writes among the host calls of a method.\<close>

definition hook_calls :: "result \<Rightarrow> nat" where
  "hook_calls r = length (filter (\<lambda>e. e = WriteHaState) (events_of r))"

text \<open>An integer volume between 0 and 100.\<close>

fun volume_in_range :: "pyval \<Rightarrow> bool" where
  "volume_in_range (PInt n) = (0 \<le> n \<and> n \<le> 100)"
| "volume_in_range _ = False"

text \<open>
  A call that brings no volume out of that range: any command, and a state message
  whose \<^verbatim>\<open>volume\<close>, if the payload has one, is in the range.
\<close>

fun volume_respected :: "call \<Rightarrow> bool" where
  "volume_respected (Updated utcnow now (Inr p)) =
     (case getitem p ''volume'' of Inl e \<Rightarrow> True | Inr v \<Rightarrow> volume_in_range v)"
| "volume_respected _ = True"

section \<open>Example inputs\<close>

definition example_device :: device where
  "example_device = init ''abc123'' ''entry1'' ''desktop''"

definition example_host :: host where
  "example_host =
     \<lparr> is_media_source_id = (\<lambda>media_id. startswith media_id ''media-source://''),
       async_resolve_media = (\<lambda>media_id. Inr (''http://hass.local/media/'' @ media_id)),
       async_process_play_media_url = (\<lambda>media_id. Inr media_id) \<rparr>"

text \<open>A state payload of the agent, with the given state, volume and title.\<close>

definition snapshot :: "string \<Rightarrow> int \<Rightarrow> pyval \<Rightarrow> pyval" where
  "snapshot st vol title =
     PDict [(''state'', PStr st), (''volume'', PInt vol), (''muted'', PBool False),
            (''title'', title), (''artist'', PStr ''Artist''),
            (''albumtitle'', PStr ''Album''), (''albumartist'', PStr ''Band''),
            (''duration'', PInt 240), (''currentposition'', PInt 12)]"

section \<open>Auxiliary facts\<close>

lemma attempt_case:
  "attempt x self k = (case x of Inl e \<Rightarrow> Raised e self [] | Inr v \<Rightarrow> k v)"
  by (cases x) simp_all

text \<open>The rounded difference is below 5 exactly up to four and a half seconds.\<close>

lemma py_round_less_5: "py_round x < 5 \<longleftrightarrow> x \<le> 9 / 2"
proof -
  have bounds: "of_int \<lfloor>x\<rfloor> \<le> x" "x < of_int \<lfloor>x\<rfloor> + 1"
    by linarith+
  consider "\<lfloor>x\<rfloor> \<le> 3" | "\<lfloor>x\<rfloor> = 4" | "5 \<le> \<lfloor>x\<rfloor>"
    by linarith
  then show ?thesis
  proof cases
    case 1
    then have "rat_of_int \<lfloor>x\<rfloor> \<le> 3" by linarith
    with bounds 1 show ?thesis by (auto simp: py_round_def Let_def)
  next
    case 2
    with bounds show ?thesis by (auto simp: py_round_def Let_def)
  next
    case 3
    then have "5 \<le> rat_of_int \<lfloor>x\<rfloor>" by linarith
    with bounds 3 show ?thesis by (auto simp: py_round_def Let_def)
  qed
qed

text \<open>
  A second run of the handler on the same message forgets the first one, and the clock
  readings reach only the two timestamps.
\<close>

lemma updated_twice:
  "updated t2 n2 loads (device_of (updated t1 n1 loads d)) = updated t2 n2 loads d"
  by (simp add: updated_def updated_track_def updated_position_def updated_finish_def
      attempt_case Let_def split: sum.splits)

lemma updated_clock:
  "updated t2 n2 loads d =
     (case updated t1 n1 loads d of
        Returned d1 evs \<Rightarrow>
          Returned (d1\<lparr>self_attr_media_position_updated_at :=
                          (if self_state d1 \<noteq> Some ''off'' then Some t2
                           else self_attr_media_position_updated_at d1),
                        self_last_updated := n2\<rparr>) [WriteHaState]
      | Raised e d1 evs \<Rightarrow> Raised e d1 evs)"
  by (simp add: updated_def updated_track_def updated_position_def updated_finish_def
      attempt_case Let_def split: sum.splits)

text \<open>
  A message without a truthy title (the key is missing, or its value is \<^verbatim>\<open>null\<close>, empty
  or zero) never writes a track field, whatever else the payload holds and whether the
  handler returns or raises.
\<close>

lemma updated_position_track:
  "self_attr_media_title (device_of (updated_position utcnow now payload d))
       = self_attr_media_title d
   \<and> self_attr_media_artist (device_of (updated_position utcnow now payload d))
       = self_attr_media_artist d
   \<and> self_attr_media_album_name (device_of (updated_position utcnow now payload d))
       = self_attr_media_album_name d
   \<and> self_attr_media_album_artist (device_of (updated_position utcnow now payload d))
       = self_attr_media_album_artist d"
  by (simp add: updated_position_def updated_finish_def attempt_case Let_def split: sum.splits)

lemma updated_without_title:
  assumes "\<forall>t. getitem payload ''title'' = Inr t \<longrightarrow> \<not> truthy t"
  shows "self_attr_media_title (device_of (updated utcnow now (Inr payload) d))
       = self_attr_media_title d
   \<and> self_attr_media_artist (device_of (updated utcnow now (Inr payload) d))
       = self_attr_media_artist d
   \<and> self_attr_media_album_name (device_of (updated utcnow now (Inr payload) d))
       = self_attr_media_album_name d
   \<and> self_attr_media_album_artist (device_of (updated utcnow now (Inr payload) d))
       = self_attr_media_album_artist d"
proof -
  have track: "updated_track utcnow now payload d' =
      attempt (getitem payload ''title'') d' (\<lambda>t. updated_position utcnow now payload d')"
    for d'
    using assms by (cases "getitem payload ''title''") (simp_all add: updated_track_def)
  show ?thesis
    by (simp add: updated_def track updated_position_track updated_finish_def attempt_case
        Let_def split: sum.splits)
qed

text \<open>The handler on a payload without one of the three fields.\<close>

lemma updated_malformed_dict:
  "map_of kvs ''state'' = None \<or> map_of kvs ''volume'' = None \<or> map_of kvs ''muted'' = None \<Longrightarrow>
     \<exists>e d'. updated utcnow now (Inr (PDict kvs)) d = Raised e d' []
       \<and> d'\<lparr>self_state := self_state d, self_volume_level := self_volume_level d\<rparr> = d"
  by (auto simp add: updated_def attempt_case Let_def split: sum.splits option.splits)

lemma updated_no_state:
  "\<not> has_field p ''state'' \<Longrightarrow> \<exists>e. updated utcnow now (Inr p) d = Raised e d []"
  by (cases p) (simp_all add: updated_def has_field_def)

text \<open>The host calls of the handler and of \<^const>\<open>async_play_media\<close>.\<close>

lemma updated_events:
  "events_of (updated utcnow now loads d) =
     (if returned (updated utcnow now loads d) then [WriteHaState] else [])"
  by (simp add: updated_def updated_track_def updated_position_def updated_finish_def
      attempt_case Let_def split: sum.splits)

lemma play_media_hook: "hook_calls (async_play_media h media_type media_id kwargs d) = 0"
  by (simp add: hook_calls_def async_play_media_def send_command_def attempt_case Let_def
      split: sum.splits pyval.splits)

text \<open>Which calls write the stored volume.\<close>

lemma updated_track_volume:
  "self_volume_level (device_of (updated_track utcnow now p d)) = self_volume_level d"
  by (simp add: updated_track_def updated_position_def updated_finish_def attempt_case Let_def
      split: sum.splits)

lemma updated_volume:
  "volume_in_range (self_volume_level d) \<Longrightarrow> volume_respected (Updated utcnow now loads) \<Longrightarrow>
   volume_in_range (self_volume_level (device_of (updated utcnow now loads d)))"
  by (cases loads)
    (auto simp add: updated_def updated_track_volume updated_finish_def attempt_case Let_def
      split: sum.splits)

lemma play_media_volume:
  "self_volume_level (device_of (async_play_media h media_type media_id kwargs d)) =
     self_volume_level d"
  by (simp add: async_play_media_def attempt_case Let_def split: sum.splits pyval.splits)

lemma set_volume_level_volume:
  "self_volume_level (device_of (async_set_volume_level volume d)) = self_volume_level d"
  by (simp add: async_set_volume_level_def split: pyfloat.splits)

lemma step_volume:
  "volume_in_range (self_volume_level d) \<Longrightarrow> volume_respected c \<Longrightarrow>
   volume_in_range (self_volume_level (device_of (step h c d)))"
  by (cases c)
    (simp_all add: updated_volume play_media_volume set_volume_level_volume Let_def
      async_turn_off_def async_media_seek_def async_volume_up_def async_volume_down_def
      async_mute_volume_def async_media_play_def async_media_pause_def async_media_stop_def
      async_media_next_track_def async_media_previous_track_def)

lemma run_volume:
  "volume_in_range (self_volume_level d) \<Longrightarrow> list_all volume_respected cs \<Longrightarrow>
   volume_in_range (self_volume_level (run h cs d))"
  by (induction cs arbitrary: d) (simp_all add: step_volume)

text \<open>
  Float results at sample values: 0.3 and 0.01 are not the rationals of their names, a
  tie goes to the even significand, and 0.015 times 100 is 1.5 and so rounds to 2.
\<close>

lemma to_double_samples:
  "to_double (3 / 10) = Finite (5404319552844595 / 2 ^ 54)"
  "to_double (1 / 100) = Finite (5764607523034235 / 2 ^ 59)"
  "to_double (2 ^ 53 + 1) = Finite (2 ^ 53)"
  "to_double (2 ^ 53 + 3) = Finite (2 ^ 53 + 4)"
  "to_double (3 / 2) = Finite (3 / 2)"
  by code_simp+

lemma set_volume_level_sample:
  "async_set_volume_level (Finite (1080863910568919 / 2 ^ 56)) example_device =
     Returned example_device
       [Publish ''hass.agent/media_player/desktop/cmd''
          (PDict [(''command'', PStr ''setvolume''), (''data'', PInt 2), (''info'', PNone)])]"
  by code_simp

text \<open>
  The \<^verbatim>\<open>state\<close> property returns \<^verbatim>\<open>OFF\<close> only for an entity whose \<^verbatim>\<open>_state\<close> is
  \<^verbatim>\<open>None\<close>, and no call assigns \<^verbatim>\<open>None\<close>.
\<close>

lemma state_OFF_iff: "state d = OFF \<longleftrightarrow> self_state d = None"
  by (simp add: state_def)

lemma updated_track_state:
  "self_state (device_of (updated_track utcnow now p d)) = self_state d"
  by (simp add: updated_track_def updated_position_def updated_finish_def attempt_case Let_def
      split: sum.splits)

lemma updated_state:
  "self_state d \<noteq> None \<Longrightarrow> self_state (device_of (updated utcnow now loads d)) \<noteq> None"
  by (simp add: updated_def updated_track_state updated_finish_def attempt_case Let_def
      split: sum.splits)

lemma play_media_state:
  "self_state d \<noteq> None \<Longrightarrow>
   self_state (device_of (async_play_media h media_type media_id kwargs d)) \<noteq> None"
  by (simp add: async_play_media_def attempt_case Let_def split: sum.splits pyval.splits)

lemma set_volume_level_state:
  "self_state (device_of (async_set_volume_level volume d)) = self_state d"
  by (simp add: async_set_volume_level_def split: pyfloat.splits)

lemma step_state:
  "self_state d \<noteq> None \<Longrightarrow> self_state (device_of (step h c d)) \<noteq> None"
  by (cases c)
    (simp_all add: updated_state play_media_state set_volume_level_state Let_def
      async_turn_off_def async_media_seek_def async_volume_up_def async_volume_down_def
      async_mute_volume_def async_media_play_def async_media_pause_def async_media_stop_def
      async_media_next_track_def async_media_previous_track_def)

lemma run_state:
  "self_state d \<noteq> None \<Longrightarrow> self_state (run h cs d) \<noteq> None"
proof (induction cs arbitrary: d)
  case Nil
  then show ?case by simp
next
  case (Cons c cs)
  from Cons.prems have "self_state (device_of (step h c d)) \<noteq> None"
    by (rule step_state)
  then have "self_state (run h cs (device_of (step h c d))) \<noteq> None"
    by (rule Cons.IH)
  then show ?case by simp
qed

lemma run_never_OFF: "state (run h cs (init unique_id entry_id device_name)) \<noteq> OFF"
proof -
  have "self_state (init unique_id entry_id device_name) \<noteq> None"
    by (simp add: init_def)
  then have "self_state (run h cs (init unique_id entry_id device_name)) \<noteq> None"
    by (rule run_state)
  then show ?thesis
    by (simp only: state_OFF_iff not_False_eq_True)
qed

section \<open>The claims\<close>

text \<open>
  C1, as amended. A state message whose payload is not JSON, or whose decoded payload
  lacks one of \<^verbatim>\<open>state\<close>, \<^verbatim>\<open>volume\<close>, \<^verbatim>\<open>muted\<close>, makes the handler raise: the
  exception reaches the caller, no state write reaches the host, and every attribute
  other than \<^verbatim>\<open>_state\<close> and \<^verbatim>\<open>_volume_level\<close> keeps its value; when the payload is
  not JSON or lacks \<^verbatim>\<open>state\<close>, the whole entity is unchanged.
\<close>

theorem updated_malformed_raises:
  assumes "malformed loads"
  shows "\<not> returned (updated utcnow now loads d)
       \<and> events_of (updated utcnow now loads d) = []
       \<and> (device_of (updated utcnow now loads d))
            \<lparr>self_state := self_state d, self_volume_level := self_volume_level d\<rparr> = d
       \<and> ((case loads of Inl e \<Rightarrow> True | Inr p \<Rightarrow> \<not> has_field p ''state'')
            \<longrightarrow> device_of (updated utcnow now loads d) = d)"
proof (cases loads)
  case (Inl e)
  then show ?thesis by (simp add: updated_def)
next
  case (Inr p)
  have first: "\<not> has_field p ''state'' \<longrightarrow> device_of (updated utcnow now loads d) = d"
    using updated_no_state [of p utcnow now d] Inr by auto
  have "\<exists>e d'. updated utcnow now loads d = Raised e d' []
       \<and> d'\<lparr>self_state := self_state d, self_volume_level := self_volume_level d\<rparr> = d"
  proof (cases p)
    case (PDict kvs)
    with Inr assms
    have "map_of kvs ''state'' = None \<or> map_of kvs ''volume'' = None
        \<or> map_of kvs ''muted'' = None"
      by (auto simp: malformed_def has_field_def)
    then show ?thesis
      using updated_malformed_dict [of kvs utcnow now d] Inr PDict by simp
  qed (use Inr in \<open>simp_all add: updated_def\<close>)
  with first Inr show ?thesis by auto
qed

text \<open>
  The amended statement at the payload \<^verbatim>\<open>{"state": "Playing", "muted": false}\<close>, which
  has no volume.
\<close>

theorem updated_malformed_raises_witness:
  "malformed (Inr (PDict [(''state'', PStr ''Playing''), (''muted'', PBool False)]))
   \<and> \<not> returned (updated 1000 1003
          (Inr (PDict [(''state'', PStr ''Playing''), (''muted'', PBool False)])) example_device)
   \<and> events_of (updated 1000 1003
          (Inr (PDict [(''state'', PStr ''Playing''), (''muted'', PBool False)])) example_device) = []
   \<and> (device_of (updated 1000 1003
          (Inr (PDict [(''state'', PStr ''Playing''), (''muted'', PBool False)])) example_device))
        \<lparr>self_state := self_state example_device,
          self_volume_level := self_volume_level example_device\<rparr> = example_device"
proof -
  have h: "malformed (Inr (PDict [(''state'', PStr ''Playing''), (''muted'', PBool False)]))"
    by (simp add: malformed_def has_field_def)
  show ?thesis
    using h updated_malformed_raises [OF h, of 1000 1003 example_device] by simp
qed

text \<open>
  C1 as stated fails: text that is not JSON makes the handler raise, and so does the
  payload \<^verbatim>\<open>{"state": "Playing"}\<close>, after \<^verbatim>\<open>_state\<close> has been assigned.
\<close>

theorem updated_malformed_counterexample:
  "malformed (Inl JSONDecodeError)
   \<and> updated 1000 1003 (Inl JSONDecodeError) example_device
       = Raised JSONDecodeError example_device []
   \<and> malformed (Inr (PDict [(''state'', PStr ''Playing'')]))
   \<and> updated 1000 1003 (Inr (PDict [(''state'', PStr ''Playing'')])) example_device
       = Raised (KeyError ''volume'') (example_device\<lparr>self_state := Some ''playing''\<rparr>) []
   \<and> self_state example_device = Some ''''"
  by code_simp

text \<open>
  C2, as amended. The entity is available exactly when the difference between the time
  of the read and \<^verbatim>\<open>_last_updated\<close>, rounded to the nearest integer (a tie to the
  even one), is below 5: that is, when the difference is at most four and a half seconds.
\<close>

theorem available_iff_rounded:
  "available now d \<longleftrightarrow> now - self_last_updated d \<le> 9 / 2"
  by (simp add: available_def py_round_less_5)

theorem available_iff_rounded_witness:
  "available (2009 / 2) (example_device\<lparr>self_last_updated := 1000\<rparr>)
   \<and> \<not> available (4019 / 4) (example_device\<lparr>self_last_updated := 1000\<rparr>)"
  using available_iff_rounded [of "2009 / 2" "example_device\<lparr>self_last_updated := 1000\<rparr>"]
    available_iff_rounded [of "4019 / 4" "example_device\<lparr>self_last_updated := 1000\<rparr>"]
  by simp

text \<open>
  C2 as stated fails 4.75 seconds after the last message: the difference is below 5 and
  the entity is not available.
\<close>

theorem available_counterexample:
  "(4019 / 4 :: rat) - self_last_updated (example_device\<lparr>self_last_updated := 1000\<rparr>) < 5
   \<and> \<not> available (4019 / 4) (example_device\<lparr>self_last_updated := 1000\<rparr>)"
  by code_simp

text \<open>
  C3, at the failing input. After the state message with \<^verbatim>\<open>"state": "off"\<close> the stored
  state is \<^verbatim>\<open>"off"\<close> and the \<^verbatim>\<open>state\<close> property returns \<^verbatim>\<open>IDLE\<close>, not \<^verbatim>\<open>OFF\<close>.
\<close>

theorem state_of_off_snapshot:
  "self_state (device_of (updated 1000 1003 (Inr (snapshot ''off'' 30 (PStr ''Song'')))
      example_device)) = Some ''off''
   \<and> state (device_of (updated 1000 1003 (Inr (snapshot ''off'' 30 (PStr ''Song'')))
      example_device)) = IDLE"
  by code_simp

text \<open>
  C4, as amended. The handler writes the state to the host once when it returns and not
  at all when it raises; the command methods \<^verbatim>\<open>async_media_play\<close>,
  \<^verbatim>\<open>async_media_pause\<close>, \<^verbatim>\<open>async_media_stop\<close>, \<^verbatim>\<open>async_turn_off\<close>,
  \<^verbatim>\<open>async_media_seek\<close> and \<^verbatim>\<open>async_play_media\<close> never write it.
\<close>

theorem hook_calls_per_call:
  "hook_calls (updated utcnow now loads d) =
     (if returned (updated utcnow now loads d) then 1 else 0)
   \<and> hook_calls (async_media_play d) = 0
   \<and> hook_calls (async_media_pause d) = 0
   \<and> hook_calls (async_media_stop d) = 0
   \<and> hook_calls (async_turn_off d) = 0
   \<and> hook_calls (async_media_seek utcnow position d) = 0
   \<and> hook_calls (async_play_media h media_type media_id kwargs d) = 0"
  by (simp add: hook_calls_def updated_events play_media_hook [unfolded hook_calls_def]
      send_command_def async_media_play_def async_media_pause_def async_media_stop_def
      async_turn_off_def async_media_seek_def)

theorem hook_calls_per_call_witness:
  "returned (updated 1000 1003 (Inr (snapshot ''Playing'' 30 (PStr ''Song''))) example_device)
   \<and> hook_calls (updated 1000 1003 (Inr (snapshot ''Playing'' 30 (PStr ''Song'')))
        example_device) = 1
   \<and> hook_calls (async_play_media example_host ''music'' ''media-source://x''
        [(''extra'', PDict [(''metadata'', PDict [(''title'', PStr ''Song A'')])])]
        example_device) = 0"
proof -
  have "returned (updated 1000 1003 (Inr (snapshot ''Playing'' 30 (PStr ''Song'')))
      example_device)"
    by code_simp
  then show ?thesis
    using hook_calls_per_call
      [where utcnow = 1000 and now = 1003
        and loads = "Inr (snapshot ''Playing'' 30 (PStr ''Song''))" and d = example_device
        and h = example_host and media_type = "''music''" and media_id = "''media-source://x''"
        and kwargs = "[(''extra'', PDict [(''metadata'', PDict [(''title'', PStr ''Song A'')])])]"]
    by simp
qed

text \<open>
  C4 as stated fails for the play command: it assigns the state and publishes, and makes
  no state write.
\<close>

theorem hook_calls_counterexample:
  "async_media_play example_device =
     Returned (example_device\<lparr>self_state := Some ''playing''\<rparr>)
       [Publish ''hass.agent/media_player/desktop/cmd''
          (PDict [(''command'', PStr ''play''), (''data'', PNone), (''info'', PNone)])]
   \<and> hook_calls (async_media_play example_device) = 0"
  by code_simp




text \<open>
  C6. A state message with \<^verbatim>\<open>state\<close>, \<^verbatim>\<open>volume\<close> and \<^verbatim>\<open>muted\<close> whose lower-cased
  state is \<^verbatim>\<open>"off"\<close>: the handler returns and assigns the state, the volume, the mute
  flag, the availability flag and \<^verbatim>\<open>_last_updated\<close>, and nothing else, so the four
  track fields, the duration, the position and the position timestamp keep their values;
  read at that time, the entity is available.
\<close>

theorem updated_off_freezes:
  assumes "getitem payload ''state'' = Inr (PStr s)" and "lower s = ''off''"
    and "getitem payload ''volume'' = Inr volume" and "getitem payload ''muted'' = Inr muted"
  shows "updated utcnow now (Inr payload) d =
           Returned (d\<lparr>self_state := Some ''off'',
                       self_volume_level := volume,
                       self_muted := muted,
                       self_available := True,
                       self_last_updated := now\<rparr>) [WriteHaState]
       \<and> self_attr_media_title (device_of (updated utcnow now (Inr payload) d))
           = self_attr_media_title d
       \<and> self_attr_media_artist (device_of (updated utcnow now (Inr payload) d))
           = self_attr_media_artist d
       \<and> self_attr_media_album_name (device_of (updated utcnow now (Inr payload) d))
           = self_attr_media_album_name d
       \<and> self_attr_media_album_artist (device_of (updated utcnow now (Inr payload) d))
           = self_attr_media_album_artist d
       \<and> self_attr_media_duration (device_of (updated utcnow now (Inr payload) d))
           = self_attr_media_duration d
       \<and> self_attr_media_position (device_of (updated utcnow now (Inr payload) d))
           = self_attr_media_position d
       \<and> self_attr_media_position_updated_at (device_of (updated utcnow now (Inr payload) d))
           = self_attr_media_position_updated_at d
       \<and> available now (device_of (updated utcnow now (Inr payload) d))"
proof -
  have result: "updated utcnow now (Inr payload) d =
           Returned (d\<lparr>self_state := Some ''off'',
                       self_volume_level := volume,
                       self_muted := muted,
                       self_available := True,
                       self_last_updated := now\<rparr>) [WriteHaState]"
    using assms by (simp add: updated_def updated_finish_def)
  have "py_round 0 = 0"
    by (simp add: py_round_def)
  with result show ?thesis
    by (simp add: available_def)
qed

theorem updated_off_freezes_witness:
  "getitem (snapshot ''OFF'' 30 (PStr ''Song'')) ''state'' = Inr (PStr ''OFF'')
   \<and> lower ''OFF'' = ''off''
   \<and> updated 1000 1003 (Inr (snapshot ''OFF'' 30 (PStr ''Song'')))
        (example_device\<lparr>self_attr_media_title := PStr ''Old song'',
                         self_attr_media_position := PInt 7\<rparr>) =
       Returned (example_device
                   \<lparr>self_attr_media_title := PStr ''Old song'',
                     self_attr_media_position := PInt 7,
                     self_state := Some ''off'',
                     self_volume_level := PInt 30,
                     self_muted := PBool False,
                     self_available := True,
                     self_last_updated := 1003\<rparr>) [WriteHaState]"
proof -
  have low: "lower ''OFF'' = ''off''"
    by (simp add: lower_def lower_char_def)
  have fields: "getitem (snapshot ''OFF'' 30 (PStr ''Song'')) ''state'' = Inr (PStr ''OFF'')"
    "getitem (snapshot ''OFF'' 30 (PStr ''Song'')) ''volume'' = Inr (PInt 30)"
    "getitem (snapshot ''OFF'' 30 (PStr ''Song'')) ''muted'' = Inr (PBool False)"
    by (simp_all add: snapshot_def)
  show ?thesis
    using low fields(1)
      updated_off_freezes [OF fields(1) low fields(2) fields(3), of 1000 1003
        "example_device\<lparr>self_attr_media_title := PStr ''Old song'',
                         self_attr_media_position := PInt 7\<rparr>"]
    by simp
qed

text \<open>
  C7, at the failing input. The handler stores the volume of a message as it is: after
  a state message with the volume 150 the stored volume is 150, above 100, and the
  volume level is 1.5, above 1.
\<close>

theorem volume_level_of_150:
  "self_volume_level
     (run example_host [Updated 1000 1003 (Inr (snapshot ''Playing'' 150 (PStr ''Song'')))]
        (init ''abc123'' ''entry1'' ''desktop'')) = PInt 150
   \<and> \<not> (150 :: int) \<le> 100
   \<and> volume_level
       (run example_host [Updated 1000 1003 (Inr (snapshot ''Playing'' 150 (PStr ''Song'')))]
          (init ''abc123'' ''entry1'' ''desktop'')) = Inr (Finite (3 / 2))
   \<and> \<not> (3 / 2 :: rat) \<le> 1"
  by code_simp

text \<open>
  C8. Turning off, stopping and pausing each publish one message on the command topic,
  whose command is \<^verbatim>\<open>"pause"\<close> with no data and no info; turning off and stopping leave
  the state \<^verbatim>\<open>IDLE\<close>, pausing leaves \<^verbatim>\<open>PAUSED\<close>, and nothing else of the entity
  changes.
\<close>

theorem pause_wire_command:
  "async_turn_off d =
     Returned (d\<lparr>self_state := Some ''idle''\<rparr>)
       [Publish (self_command_topic d)
          (PDict [(''command'', PStr ''pause''), (''data'', PNone), (''info'', PNone)])]
   \<and> async_media_stop d =
     Returned (d\<lparr>self_state := Some ''idle''\<rparr>)
       [Publish (self_command_topic d)
          (PDict [(''command'', PStr ''pause''), (''data'', PNone), (''info'', PNone)])]
   \<and> async_media_pause d =
     Returned (d\<lparr>self_state := Some ''paused''\<rparr>)
       [Publish (self_command_topic d)
          (PDict [(''command'', PStr ''pause''), (''data'', PNone), (''info'', PNone)])]
   \<and> state (device_of (async_turn_off d)) = IDLE
   \<and> state (device_of (async_media_stop d)) = IDLE
   \<and> state (device_of (async_media_pause d)) = PAUSED"
  by (simp add: async_turn_off_def async_media_stop_def async_media_pause_def
      send_command_def state_def)

theorem pause_wire_command_witness:
  "events_of (async_turn_off example_device) =
     [Publish ''hass.agent/media_player/desktop/cmd''
        (PDict [(''command'', PStr ''pause''), (''data'', PNone), (''info'', PNone)])]
   \<and> events_of (async_media_stop example_device) = events_of (async_turn_off example_device)
   \<and> events_of (async_media_pause example_device) = events_of (async_turn_off example_device)
   \<and> state (device_of (async_media_pause example_device)) = PAUSED"
proof -
  have topic: "self_command_topic example_device = ''hass.agent/media_player/desktop/cmd''"
    by (simp add: example_device_def init_def)
  show ?thesis
    using pause_wire_command [of example_device] by (simp add: topic state_def)
qed

text \<open>
  C9. A media type that starts with none of \<^verbatim>\<open>"music"\<close>, \<^verbatim>\<open>"audio/"\<close> and
  \<^verbatim>\<open>"provider"\<close>: \<^verbatim>\<open>async_play_media\<close> returns with the entity as it was and
  without a call to the host, so nothing is published.
\<close>

theorem play_media_rejected:
  assumes "\<not> startswith media_type ''music''" and "\<not> startswith media_type ''audio/''"
    and "\<not> startswith media_type ''provider''"
  shows "async_play_media h media_type media_id kwargs d = Returned d []"
  using assms by (simp add: async_play_media_def)

theorem play_media_rejected_witness:
  "\<not> startswith ''video/mp4'' ''music'' \<and> \<not> startswith ''video/mp4'' ''audio/''
   \<and> \<not> startswith ''video/mp4'' ''provider''
   \<and> async_play_media example_host ''video/mp4'' ''id123'' [] example_device
       = Returned example_device []"
proof -
  have h: "\<not> startswith ''video/mp4'' ''music''" "\<not> startswith ''video/mp4'' ''audio/''"
    "\<not> startswith ''video/mp4'' ''provider''"
    by (simp_all add: startswith_def)
  show ?thesis
    using h play_media_rejected [OF h, of example_host "''id123''" "[]" example_device]
    by simp
qed

text \<open>
  C10. When the handler returns on a message, running it again on the same message
  returns too, and changes the entity only in \<^verbatim>\<open>_last_updated\<close>, which becomes the
  later reading of the clock, and, unless the state is \<^verbatim>\<open>"off"\<close>, in the position
  timestamp, which does too.
\<close>

theorem updated_idempotent:
  assumes "updated t1 n1 loads d = Returned d1 evs"
  shows "updated t2 n2 loads d1 =
           Returned (d1\<lparr>self_attr_media_position_updated_at :=
                          (if self_state d1 \<noteq> Some ''off'' then Some t2
                           else self_attr_media_position_updated_at d1),
                        self_last_updated := n2\<rparr>) [WriteHaState]"
proof -
  have "updated t2 n2 loads d1 = updated t2 n2 loads d"
    using updated_twice [of t2 n2 loads t1 n1 d] assms by simp
  then show ?thesis
    using updated_clock [of t2 n2 loads d t1 n1] assms by simp
qed

theorem updated_idempotent_witness:
  "updated 1000 1003 (Inr (snapshot ''Playing'' 30 (PStr ''Song''))) example_device =
     Returned (example_device
                 \<lparr>self_state := Some ''playing'',
                   self_volume_level := PInt 30,
                   self_muted := PBool False,
                   self_available := True,
                   self_attr_media_title := PStr ''Song'',
                   self_attr_media_artist := PStr ''Artist'',
                   self_attr_media_album_name := PStr ''Album'',
                   self_attr_media_album_artist := PStr ''Band'',
                   self_attr_media_duration := PInt 240,
                   self_attr_media_position := PInt 12,
                   self_attr_media_position_updated_at := Some 1000,
                   self_last_updated := 1003\<rparr>) [WriteHaState]
   \<and> updated 1005 1008 (Inr (snapshot ''Playing'' 30 (PStr ''Song'')))
       (example_device
                 \<lparr>self_state := Some ''playing'',
                   self_volume_level := PInt 30,
                   self_muted := PBool False,
                   self_available := True,
                   self_attr_media_title := PStr ''Song'',
                   self_attr_media_artist := PStr ''Artist'',
                   self_attr_media_album_name := PStr ''Album'',
                   self_attr_media_album_artist := PStr ''Band'',
                   self_attr_media_duration := PInt 240,
                   self_attr_media_position := PInt 12,
                   self_attr_media_position_updated_at := Some 1000,
                   self_last_updated := 1003\<rparr>) =
     Returned (example_device
                 \<lparr>self_state := Some ''playing'',
                   self_volume_level := PInt 30,
                   self_muted := PBool False,
                   self_available := True,
                   self_attr_media_title := PStr ''Song'',
                   self_attr_media_artist := PStr ''Artist'',
                   self_attr_media_album_name := PStr ''Album'',
                   self_attr_media_album_artist := PStr ''Band'',
                   self_attr_media_duration := PInt 240,
                   self_attr_media_position := PInt 12,
                   self_attr_media_position_updated_at := Some 1005,
                   self_last_updated := 1008\<rparr>) [WriteHaState]"
proof -
  have first: "updated 1000 1003 (Inr (snapshot ''Playing'' 30 (PStr ''Song''))) example_device =
     Returned (example_device
                 \<lparr>self_state := Some ''playing'',
                   self_volume_level := PInt 30,
                   self_muted := PBool False,
                   self_available := True,
                   self_attr_media_title := PStr ''Song'',
                   self_attr_media_artist := PStr ''Artist'',
                   self_attr_media_album_name := PStr ''Album'',
                   self_attr_media_album_artist := PStr ''Band'',
                   self_attr_media_duration := PInt 240,
                   self_attr_media_position := PInt 12,
                   self_attr_media_position_updated_at := Some 1000,
                   self_last_updated := 1003\<rparr>) [WriteHaState]"
    by code_simp
  show ?thesis
    using first updated_idempotent [OF first, of 1005 1008] by simp
qed

end
